theory Spec2Isabelle
  imports Main "HOL-Library.Sublist"
begin

section \<open>Strings as the page scripts use them\<close>

text \<open>
  JavaScript strings are modelled as \<^typ>\<open>string\<close>. \<open>toLower\<close> is the helper
  \<^verbatim>\<open>(value) => (value || '').toLowerCase()\<close> of \<^verbatim>\<open>detectAccessBlocker\<close>: an absent value reads
  as the empty string, and the letters \<open>A\<close> to \<open>Z\<close> are mapped to \<open>a\<close> to \<open>z\<close>. Characters
  outside ASCII are left as they are (all catalogue phrases are ASCII).
\<close>

definition lower_char :: "char \<Rightarrow> char" where
  "lower_char c =
     (case map_of (zip ''ABCDEFGHIJKLMNOPQRSTUVWXYZ'' ''abcdefghijklmnopqrstuvwxyz'') c of
        Some l \<Rightarrow> l
      | None \<Rightarrow> c)"

definition toLower :: "string option \<Rightarrow> string" where
  "toLower v = map lower_char (case v of None \<Rightarrow> [] | Some s \<Rightarrow> s)"

text \<open>\<^verbatim>\<open>text.includes(phrase)\<close>: the phrase occurs as a contiguous substring.\<close>

fun str_includes :: "string \<Rightarrow> string \<Rightarrow> bool" where
  "str_includes [] p = (p = [])"
| "str_includes (c # cs) p = (prefix p (c # cs) \<or> str_includes cs p)"

section \<open>The document seen by a page script\<close>

datatype error =
  NavigationTimeout | SelectorTimeout | SyntaxError | EvaluateError | DriverError

record node =
  innerText :: string
  attributes :: "(string \<times> string) list"

definition getAttribute :: "node \<Rightarrow> string \<Rightarrow> string option" where
  "getAttribute n a = map_of (attributes n) a"

text \<open>
  A card of the search results page, as the extraction script reads it: \<open>wrapper\<close> names
  the node that the raw match resolves to (the match itself when it has class \<open>g\<close>, else
  its closest result wrapper), \<open>h3_text\<close> is \<^verbatim>\<open>h3.innerText.trim()\<close> when the card has an
  \<open>h3\<close>, \<open>anchor_href\<close> is the \<^verbatim>\<open>href\<close> of its first \<^verbatim>\<open>a[href]\<close>, and \<open>isVideoResult\<close>,
  \<open>card_snippet\<close> and \<open>card_sitePath\<close> are the values that the video test, the snippet
  fallback chain and the site-path scan compute on the card.
\<close>

record search_card =
  wrapper :: nat
  h3_text :: "string option"
  anchor_href :: "string option"
  isVideoResult :: bool
  card_snippet :: "string option"
  card_sitePath :: "string option"

text \<open>
  An anchor \<^verbatim>\<open>a.hfpxzc[href*="/place/"]\<close> of the maps panel: its \<^verbatim>\<open>aria-label\<close>, its
  resolved \<^verbatim>\<open>href\<close>, and the text of the rating, reviews and descriptor elements where
  they exist.
\<close>

record place_card =
  aria_label :: "string option"
  card_href :: string
  ratingEl :: "string option"
  reviewsEl :: "string option"
  descriptorEl :: "string option"

text \<open>
  The browser is an opaque capability; a document is what its queries answer.
  \<open>querySelector\<close> returns the first matching node, \<open>None\<close> for \<^verbatim>\<open>null\<close>, and
  \<open>Inl SyntaxError\<close> where the DOM throws on a malformed selector.
  \<open>body_innerText\<close> and \<open>documentElement_innerHTML\<close> are \<open>None\<close> when the document has
  no body or no root element. \<open>iframe_srcs\<close> lists \<^verbatim>\<open>getAttribute('src')\<close> of every iframe.
  \<open>rawCards\<close> are the matches of the result-container selectors of the search script;
  \<open>topStories_scan\<close> and \<open>aiOverview_scan\<close> are the values of the top-stories and
  AI-overview scans (stories and overview serialised). \<open>panel\<close> says whether the maps
  results panel exists, and \<open>place_cards k\<close> are the place anchors rendered when the maps
  script scans for the \<open>k\<close>-th time (counting from 0): scrolling the panel between two
  scans is what changes them.
\<close>

record document =
  body_innerText :: "string option"
  documentElement_innerHTML :: "string option"
  querySelector :: "string \<Rightarrow> error + node option"
  iframe_srcs :: "string option list"
  rawCards :: "search_card list"
  topStories_scan :: "string list option"
  aiOverview_scan :: "string option"
  panel :: bool
  place_cards :: "nat \<Rightarrow> place_card list"

section \<open>The access-blocker classifier\<close>

definition cookieSelectors :: "string list" where
  \<open>cookieSelectors =
    [''#onetrust-banner-sdk'', ''#onetrust-consent-sdk'', ''.osano-cm-window'',
     ''.truste_overlay'', ''.qc-cmp2-container'', ''.cookie-consent'', ''.cookie-banner'',
     ''.consent-banner'', ''#cookie-banner'', ''#sp-cc'', ''[id*="cookieconsent"]'',
     ''[class*="cookie-consent"]'', ''[class*="gdpr-consent"]'']\<close>

definition cookiePhrases :: "string list" where
  "cookiePhrases =
    [''we use cookies'', ''cookie policy'', ''accept all cookies'', ''manage cookies'',
     ''consent to cookies'', ''your cookie preferences'', ''cookie settings'']"

definition captchaSelectors :: "string list" where
  \<open>captchaSelectors =
    [''#captcha'', ''#captcha-form'', ''#recaptcha'', ''.g-recaptcha'', ''.h-captcha'',
     ''.cf-challenge-card'', ''#challenge-form'', ''#cf-challenge-running'',
     ''[data-sitekey]'', ''iframe[src*="recaptcha"]'', ''iframe[src*="hcaptcha"]'',
     ''iframe[src*="turnstile"]'', ''iframe[src*="challenges.cloudflare.com"]'']\<close>

definition captchaPhrases :: "string list" where
  "captchaPhrases =
    [''please verify you are human'', ''are you a robot'', ''confirm you are human'',
     ''complete the captcha'', ''security challenge'', ''press and hold'',
     ''checking if the site connection is secure'']"

text \<open>
  The patterns of the case-insensitive test
  \<^verbatim>\<open>/recaptcha|hcaptcha|turnstile|challenges\.cloudflare\.com|cf\.tw|\/captcha/i\<close>
  on an iframe source.
\<close>

definition captchaIframePatterns :: "string list" where
  "captchaIframePatterns =
    [''recaptcha'', ''hcaptcha'', ''turnstile'', ''challenges.cloudflare.com'', ''cf.tw'',
     ''/captcha'']"

definition cloudflareMarkup :: "string list" where
  "cloudflareMarkup = [''cf-browser-verification'', ''cf-chl-widget'', ''cf_clearance'']"

datatype blocker_type = cookie | captcha | unknown

record blocker_evidence =
  selectors :: "string list"
  phrases :: "string list option"
  iframes :: "string list option"

record blocker =
  type :: blocker_type
  reason :: string
  evidence :: blocker_evidence
  missingRequired :: bool

text \<open>
  \<^verbatim>\<open>Boolean(document.querySelector(selector))\<close> under \<^verbatim>\<open>try/catch\<close>: a selector that
  throws counts as not matching.
\<close>

definition selectorMatches :: "document \<Rightarrow> string \<Rightarrow> bool" where
  "selectorMatches d s = (case querySelector d s of Inr (Some n) \<Rightarrow> True | _ \<Rightarrow> False)"

definition collectSelectors :: "document \<Rightarrow> string list \<Rightarrow> string list" where
  "collectSelectors d sels = filter (selectorMatches d) sels"

definition collectPhrases :: "string \<Rightarrow> string list \<Rightarrow> string list" where
  "collectPhrases bodyText ps = filter (str_includes bodyText) ps"

text \<open>
  \<open>computeMissingRequired\<close> is the constant \<^verbatim>\<open>missingRequired\<close> of the script: the list
  is non-empty and every selector is absent (a selector that throws counts as absent).
\<close>

definition computeMissingRequired :: "document \<Rightarrow> string list \<Rightarrow> bool" where
  "computeMissingRequired d requiredSelectors =
     (requiredSelectors \<noteq> [] \<and> list_all (\<lambda>s. \<not> selectorMatches d s) requiredSelectors)"

definition captchaIframeSources :: "document \<Rightarrow> string list" where
  "captchaIframeSources d =
     filter (\<lambda>src. list_ex (str_includes (toLower (Some src))) captchaIframePatterns)
       (map (\<lambda>a. case a of None \<Rightarrow> [] | Some s \<Rightarrow> s) (iframe_srcs d))"

text \<open>The function that \<^verbatim>\<open>detectAccessBlocker\<close> evaluates inside the page.\<close>

definition classify :: "document \<Rightarrow> string list \<Rightarrow> blocker option" where
  "classify d requiredSelectors =
    (let bodyText = toLower (body_innerText d);
         htmlText = toLower (documentElement_innerHTML d);
         missing = computeMissingRequired d requiredSelectors;
         cookieHits = collectSelectors d cookieSelectors;
         cookieTextHits = collectPhrases bodyText cookiePhrases
     in if cookieHits \<noteq> [] \<or> cookieTextHits \<noteq> [] then
          Some \<lparr>type = cookie,
                reason = ''Detected cookie or consent banner covering the page'',
                evidence = \<lparr>selectors = cookieHits, phrases = Some cookieTextHits,
                            iframes = None\<rparr>,
                missingRequired = missing\<rparr>
        else
          let captchaHits = collectSelectors d captchaSelectors;
              captchaTextHits = collectPhrases bodyText captchaPhrases;
              iframeHits = captchaIframeSources d;
              cloudflareMarkers = list_ex (str_includes htmlText) cloudflareMarkup
          in if captchaHits \<noteq> [] \<or> captchaTextHits \<noteq> [] \<or> iframeHits \<noteq> [] \<or>
                cloudflareMarkers then
               Some \<lparr>type = captcha,
                     reason = ''Detected CAPTCHA or human-verification challenge'',
                     evidence = \<lparr>selectors = captchaHits, phrases = Some captchaTextHits,
                                 iframes = Some iframeHits\<rparr>,
                     missingRequired = missing\<rparr>
             else if missing then
               Some \<lparr>type = unknown,
                     reason = ''Required page content was not found after navigation'',
                     evidence = \<lparr>selectors = requiredSelectors, phrases = None,
                                 iframes = None\<rparr>,
                     missingRequired = True\<rparr>
             else None)"

text \<open>
  \<^verbatim>\<open>detectAccessBlocker(page, {requiredSelectors})\<close>. Its argument is the outcome of
  \<^verbatim>\<open>page.evaluate\<close>: the document the script runs against, or the error with which the
  evaluation rejects; the \<^verbatim>\<open>catch\<close> turns a rejection into \<^verbatim>\<open>null\<close>.
\<close>

definition detectAccessBlocker :: "error + document \<Rightarrow> string list \<Rightarrow> blocker option" where
  "detectAccessBlocker view requiredSelectors =
     (case view of Inl e \<Rightarrow> None | Inr d \<Rightarrow> classify d requiredSelectors)"

section \<open>Requests, the shared page and the driver's answers\<close>

text \<open>
  A request body as the handlers destructure it: an optional field is \<open>None\<close> when the
  body does not give it, and each handler applies its own default. \<open>url\<close> and \<open>query\<close>
  are the empty string when absent (the handlers answer 400 on \<^verbatim>\<open>!url\<close> or \<^verbatim>\<open>!query\<close> before
  any job is queued). \<open>limit\<close> is an integer; nothing in the source validates it.
  \<open>extract_spec\<close> is the field \<^verbatim>\<open>extract\<close> of the body.
\<close>

record field =
  name :: string
  selector :: string
  attr :: "string option"

record body =
  url :: string
  query :: string
  limit :: "int option"
  lang :: "string option"
  waitUntil :: "string option"
  waitForSelector :: "string option"
  waitForSelectorTimeout :: "nat option"
  waitForTimeout :: "nat option"
  scroll :: "bool option"
  returnHtml :: "bool option"
  includeTopStories :: "bool option"
  extract_spec :: "field list option"
  headers :: "(string \<times> string) list option"
  evaluateScript :: "string option"
  evaluateArgs :: "string option"
  requiredSelectors :: "string list option"

text \<open>
  Where a job navigates to: the caller's URL, or the Google search or maps URL built from
  the query and the language.
\<close>

datatype target = Url string | GoogleSearch string string | GoogleMaps string string

text \<open>
  The shared page object. \<open>extraHTTPHeaders\<close> is what \<^verbatim>\<open>page.setExtraHTTPHeaders\<close> last
  stored; \<open>navigations\<close> records every \<^verbatim>\<open>page.goto\<close> with the extra headers in force
  when it was issued.
\<close>

record page =
  page_id :: nat
  isClosed :: bool
  extraHTTPHeaders :: "(string \<times> string) list"
  navigations :: "(target \<times> (string \<times> string) list) list"

text \<open>
  What the browser answers during one job: for each awaited driver call, whether it
  rejects, and the document each \<^verbatim>\<open>page.evaluate\<close> runs against. Timeout values only decide
  when the driver gives up; the answer says whether it did. \<open>meta_description\<close> is the
  outcome of the out-of-band snippet fetch for a link (\<open>None\<close> on any failure), and
  \<open>FALLBACK_SNIPPET_LIMIT\<close> is the process setting of that name.
\<close>

record world =
  setExtraHTTPHeaders_error :: "error option"
  goto_result :: "error + nat option"
  waitForSelector_error :: "string \<Rightarrow> error option"
  waitForTimeout_error :: "error option"
  classifier_view :: "error + document"
  extraction_view :: "error + document"
  topStories_view :: "error + document"
  aiOverview_view :: "error + document"
  content_result :: "error + string"
  script_result :: "error + string"
  page_url :: string
  meta_description :: "string \<Rightarrow> string option"
  FALLBACK_SNIPPET_LIMIT :: int

section \<open>Job outcomes\<close>

text \<open>
  The fields that every answer of a job carries: \<open>job_query\<close> and \<open>job_url\<close> are its
  \<^verbatim>\<open>query\<close> (absent for a fetch job) and \<^verbatim>\<open>url\<close>, \<open>finalUrl\<close> is \<^verbatim>\<open>page.url()\<close> and
  \<open>status\<close> the status of the navigation response, \<open>None\<close> when there is none.
\<close>

record job_meta =
  job_query :: "string option"
  job_url :: target
  finalUrl :: string
  status :: "nat option"

record blocker_payload = job_meta +
  blocked :: bool
  blocker :: blocker

record page_result = job_meta +
  html :: "string option"

record fetch_result = page_result +
  extracted :: "(string \<rightharpoonup> string option) option"
  evaluated :: "string option"

record titled =
  title :: string

record search_item = titled +
  link :: string
  snippet :: "string option"
  sitePath :: "string option"

record place = titled +
  href :: string
  rating :: "string option"
  reviews :: "string option"
  descriptor :: "string option"

record 'a list_result = page_result +
  results :: "'a list"

record search_result = "search_item list_result" +
  topStories :: "string list option"
  aiOverview :: "string option"

text \<open>
  A job either rejects (the handler answers 500), returns a blocker payload (409) or
  returns its result (200). The time stamp and the duration of a result are left out.
\<close>

datatype 'a outcome = Failed error | Blocked blocker_payload | Completed 'a

definition http_status :: "'a outcome \<Rightarrow> nat" where
  "http_status out = (case out of Failed e \<Rightarrow> 500 | Blocked p \<Rightarrow> 409 | Completed r \<Rightarrow> 200)"

definition buildBlockerPayload :: "blocker \<Rightarrow> job_meta \<Rightarrow> blocker_payload" where
  "buildBlockerPayload b meta =
     \<lparr>job_query = job_query meta, job_url = job_url meta, finalUrl = finalUrl meta,
      status = status meta, blocked = True, blocker = b\<rparr>"

text \<open>\<^verbatim>\<open>promise.catch(() => {})\<close>: whatever the awaited call rejected with is dropped.\<close>

definition caught :: "error option \<Rightarrow> error option" where
  "caught r = None"

section \<open>Field extraction\<close>

text \<open>
  One iteration of the \<^verbatim>\<open>forEach\<close> of the extraction script: \<^verbatim>\<open>null\<close> when the selector
  matches nothing, else the rendered text (the default attribute \<open>innerText\<close>) or the
  named attribute. A selector on which \<^verbatim>\<open>querySelector\<close> throws is not caught.
\<close>

definition extract_field :: "document \<Rightarrow> field \<Rightarrow> error + string option" where
  "extract_field d f =
     (case querySelector d (selector f) of
        Inl e \<Rightarrow> Inl e
      | Inr None \<Rightarrow> Inr None
      | Inr (Some n) \<Rightarrow>
          (let a = (case attr f of None \<Rightarrow> ''innerText'' | Some a \<Rightarrow> a)
           in Inr (if a = ''innerText'' then Some (innerText n) else getAttribute n a)))"

fun extract_fields ::
  "document \<Rightarrow> field list \<Rightarrow> (string \<rightharpoonup> string option) \<Rightarrow> error + (string \<rightharpoonup> string option)"
where
  "extract_fields d [] data = Inr data"
| "extract_fields d (f # fs) data =
     (case extract_field d f of
        Inl e \<Rightarrow> Inl e
      | Inr v \<Rightarrow> extract_fields d fs (data(name f \<mapsto> v)))"

section \<open>The fetch job\<close>

definition fetch_meta :: "body \<Rightarrow> world \<Rightarrow> nat option \<Rightarrow> job_meta" where
  "fetch_meta b w st =
     \<lparr>job_query = None, job_url = Url (url b), finalUrl = page_url w, status = st\<rparr>"

text \<open>The steps of the fetch closure after \<^verbatim>\<open>page.goto\<close> was issued.\<close>

definition fetch_steps :: "body \<Rightarrow> world \<Rightarrow> fetch_result outcome" where
  "fetch_steps b w =
    (case goto_result w of
       Inl e \<Rightarrow> Failed e
     | Inr st \<Rightarrow>
    (case (case waitForSelector b of
             None \<Rightarrow> None
           | Some sel \<Rightarrow> if sel = [] then None else waitForSelector_error w sel) of
       Some e \<Rightarrow> Failed e
     | None \<Rightarrow>
    (case (if (case waitForTimeout b of None \<Rightarrow> 0 | Some t \<Rightarrow> t) = 0 then None
           else waitForTimeout_error w) of
       Some e \<Rightarrow> Failed e
     | None \<Rightarrow>
    (case detectAccessBlocker (classifier_view w)
            (case requiredSelectors b of None \<Rightarrow> [] | Some rs \<Rightarrow> rs) of
       Some bl \<Rightarrow> Blocked (buildBlockerPayload bl (fetch_meta b w st))
     | None \<Rightarrow>
    (case (case extract_spec b of
             None \<Rightarrow> Inr None
           | Some items \<Rightarrow>
               if items = [] then Inr None
               else (case extraction_view w of
                       Inl e \<Rightarrow> Inl e
                     | Inr d \<Rightarrow>
                         (case extract_fields d items Map.empty of
                            Inl e \<Rightarrow> Inl e
                          | Inr data \<Rightarrow> Inr (Some data)))) of
       Inl e \<Rightarrow> Failed e
     | Inr ex \<Rightarrow>
    (case (if (case returnHtml b of None \<Rightarrow> True | Some r \<Rightarrow> r)
           then (case content_result w of Inl e \<Rightarrow> Inl e | Inr h \<Rightarrow> Inr (Some h))
           else Inr None) of
       Inl e \<Rightarrow> Failed e
     | Inr h \<Rightarrow>
    (case (case evaluateScript b of
             None \<Rightarrow> Inr None
           | Some sc \<Rightarrow>
               if sc = [] then Inr None
               else (case script_result w of Inl e \<Rightarrow> Inl e | Inr v \<Rightarrow> Inr (Some v))) of
       Inl e \<Rightarrow> Failed e
     | Inr ev \<Rightarrow>
         Completed
           \<lparr>job_query = None, job_url = Url (url b), finalUrl = page_url w, status = st,
            html = h, extracted = ex, evaluated = ev\<rparr>)))))))"

text \<open>
  The closure that \<^verbatim>\<open>/fetch\<close> hands to \<^verbatim>\<open>runJob\<close>: it stores the request's headers (the
  empty set when the body gives none) on the page, then navigates. A failing
  \<^verbatim>\<open>bringToFront\<close> is caught and has no effect.
\<close>

definition fetch_job :: "body \<Rightarrow> world \<Rightarrow> page \<Rightarrow> fetch_result outcome \<times> page" where
  "fetch_job b w p =
    (case setExtraHTTPHeaders_error w of
       Some e \<Rightarrow> (Failed e, p)
     | None \<Rightarrow>
         (let extraHeaders = (case headers b of None \<Rightarrow> [] | Some h \<Rightarrow> h);
              p1 = p\<lparr>extraHTTPHeaders := extraHeaders\<rparr>;
              p2 = p1\<lparr>navigations := navigations p1 @ [(Url (url b), extraHTTPHeaders p1)]\<rparr>
          in (fetch_steps b w, p2)))"

section \<open>The search job\<close>

text \<open>
  The first loop of the search script keeps one card per wrapper node, the second one
  skips a card without headline or link, with a link already seen, or recognised as a
  video, and stops once \<^verbatim>\<open>items.length >= maxResults\<close> after a push.
\<close>

fun dedupe_wrappers :: "search_card list \<Rightarrow> nat list \<Rightarrow> search_card list" where
  "dedupe_wrappers [] seenNodes = []"
| "dedupe_wrappers (c # cs) seenNodes =
     (if wrapper c \<in> set seenNodes then dedupe_wrappers cs seenNodes
      else c # dedupe_wrappers cs (wrapper c # seenNodes))"

fun collect_items ::
  "int \<Rightarrow> search_card list \<Rightarrow> string list \<Rightarrow> search_item list \<Rightarrow> search_item list"
where
  "collect_items maxResults [] seenLinks items = items"
| "collect_items maxResults (c # cs) seenLinks items =
     (case (h3_text c, anchor_href c) of
        (Some t, Some l) \<Rightarrow>
          if l = [] then collect_items maxResults cs seenLinks items
          else if l \<in> set seenLinks then collect_items maxResults cs seenLinks items
          else if isVideoResult c then collect_items maxResults cs seenLinks items
          else
            (let items' = items @ [\<lparr>title = t, link = l, snippet = card_snippet c,
                                    sitePath = card_sitePath c\<rparr>]
             in if maxResults \<le> int (length items') then items'
                else collect_items maxResults cs (l # seenLinks) items')
      | _ \<Rightarrow> collect_items maxResults cs seenLinks items)"

definition search_items :: "document \<Rightarrow> int \<Rightarrow> search_item list" where
  "search_items d maxResults = collect_items maxResults (dedupe_wrappers (rawCards d) []) [] []"

text \<open>
  \<^verbatim>\<open>fillMissingSnippets\<close>: for at most \<open>FALLBACK_SNIPPET_LIMIT\<close> items that have no snippet
  and an \<open>http\<close> link, the snippet becomes the meta description of the linked page when
  the out-of-band fetch finds one. Nothing in it can reject.
\<close>

fun fill_loop ::
  "int \<Rightarrow> (string \<Rightarrow> string option) \<Rightarrow> int \<Rightarrow> search_item list \<Rightarrow> search_item list"
where
  "fill_loop lim look attempts [] = []"
| "fill_loop lim look attempts (item # rest) =
     (if (case snippet item of None \<Rightarrow> False | Some t \<Rightarrow> t \<noteq> []) \<or> link item = [] \<or>
         \<not> prefix ''http'' (link item)
      then item # fill_loop lim look attempts rest
      else if lim \<le> attempts then item # rest
      else (case look (link item) of
              None \<Rightarrow> item
            | Some t \<Rightarrow> item\<lparr>snippet := Some t\<rparr>) # fill_loop lim look (attempts + 1) rest)"

definition fillMissingSnippets ::
  "int \<Rightarrow> (string \<Rightarrow> string option) \<Rightarrow> search_item list \<Rightarrow> search_item list"
where
  "fillMissingSnippets lim look rs =
     (if rs = [] \<or> lim \<le> 0 then rs else fill_loop lim look 0 rs)"

definition search_required :: "string list" where
  "search_required = [''#search .g'', ''#search .tF2Cxc'', ''#search .Gx5Zad'']"

definition search_target :: "body \<Rightarrow> target" where
  "search_target b = GoogleSearch (query b) (case lang b of None \<Rightarrow> ''en'' | Some l \<Rightarrow> l)"

definition search_steps :: "body \<Rightarrow> world \<Rightarrow> search_result outcome" where
  "search_steps b w =
    (case goto_result w of
       Inl e \<Rightarrow> Failed e
     | Inr st \<Rightarrow>
    (case caught (waitForSelector_error w ''#search'') of
       Some e \<Rightarrow> Failed e
     | None \<Rightarrow>
    (case (if (case waitForTimeout b of None \<Rightarrow> 0 | Some t \<Rightarrow> t) = 0 then None
           else waitForTimeout_error w) of
       Some e \<Rightarrow> Failed e
     | None \<Rightarrow>
    (case detectAccessBlocker (classifier_view w) search_required of
       Some bl \<Rightarrow>
         Blocked (buildBlockerPayload bl
           \<lparr>job_query = Some (query b), job_url = search_target b, finalUrl = page_url w,
            status = st\<rparr>)
     | None \<Rightarrow>
    (case extraction_view w of
       Inl e \<Rightarrow> Failed e
     | Inr d \<Rightarrow>
    (let rs = fillMissingSnippets (FALLBACK_SNIPPET_LIMIT w) (meta_description w)
                (search_items d (case limit b of None \<Rightarrow> 20 | Some n \<Rightarrow> n))
     in
    (case (if (case includeTopStories b of None \<Rightarrow> True | Some i \<Rightarrow> i)
           then (case topStories_view w of
                   Inl e \<Rightarrow> Inl e
                 | Inr d' \<Rightarrow> Inr (topStories_scan d'))
           else Inr None) of
       Inl e \<Rightarrow> Failed e
     | Inr ts \<Rightarrow>
    (case (if (case returnHtml b of None \<Rightarrow> False | Some r \<Rightarrow> r)
           then (case content_result w of Inl e \<Rightarrow> Inl e | Inr h \<Rightarrow> Inr (Some h))
           else Inr None) of
       Inl e \<Rightarrow> Failed e
     | Inr h \<Rightarrow>
    (case aiOverview_view w of
       Inl e \<Rightarrow> Failed e
     | Inr d'' \<Rightarrow>
         Completed
           \<lparr>job_query = Some (query b), job_url = search_target b, finalUrl = page_url w,
            status = st, html = h, results = rs,
            topStories = (case ts of None \<Rightarrow> None
                          | Some l \<Rightarrow> if l = [] then None else Some l),
            aiOverview = aiOverview_scan d''\<rparr>)))))))))"

text \<open>The closure that \<^verbatim>\<open>/search\<close> hands to \<^verbatim>\<open>runJob\<close>; it never touches the extra headers.\<close>

definition search_job :: "body \<Rightarrow> world \<Rightarrow> page \<Rightarrow> search_result outcome \<times> page" where
  "search_job b w p =
     (search_steps b w,
      p\<lparr>navigations := navigations p @ [(search_target b, extraHTTPHeaders p)]\<rparr>)"

section \<open>The maps job and its scroll-driven collector\<close>

text \<open>
  \<open>collected\<close> is the \<^verbatim>\<open>Map\<close> of the collector script, as the list of its entries in
  insertion order. \<open>scrape\<close> is one scan over the rendered anchors: an anchor without
  \<^verbatim>\<open>href\<close> or \<^verbatim>\<open>aria-label\<close> (absent or empty) is skipped, and so is one whose \<^verbatim>\<open>href\<close> is
  already a key.
\<close>

fun scrape :: "place_card list \<Rightarrow> (string \<times> place) list \<Rightarrow> (string \<times> place) list" where
  "scrape [] collected = collected"
| "scrape (c # cs) collected =
     (case aria_label c of
        None \<Rightarrow> scrape cs collected
      | Some t \<Rightarrow>
          if card_href c = [] \<or> t = [] then scrape cs collected
          else if card_href c \<in> fst ` set collected then scrape cs collected
          else scrape cs
                 (collected @
                   [(card_href c,
                     \<lparr>title = t, href = card_href c, rating = ratingEl c,
                      reviews = reviewsEl c, descriptor = descriptorEl c\<rparr>)]))"

text \<open>
  The \<^verbatim>\<open>while\<close> loop: scan, scroll the panel by one viewport, pause, count. The scroll and
  the pause show only in what the next scan finds (\<open>cards (iterations + 1)\<close>). It returns
  the map and the number of passes made.
\<close>

function scroll_loop ::
  "(nat \<Rightarrow> place_card list) \<Rightarrow> int \<Rightarrow> bool \<Rightarrow> bool \<Rightarrow> (string \<times> place) list \<Rightarrow> nat \<Rightarrow>
   (string \<times> place) list \<times> nat"
where
  "scroll_loop cards maxResults enableScroll pnl collected iterations =
     (if int (length collected) < maxResults \<and> enableScroll \<and> pnl \<and> iterations < 20
      then scroll_loop cards maxResults enableScroll pnl
             (scrape (cards iterations) collected) (iterations + 1)
      else (collected, iterations))"
  by pat_completeness auto
termination
  by (relation "measure (\<lambda>(cards, maxResults, enableScroll, pnl, collected, iterations).
        20 - iterations)") auto

declare scroll_loop.simps [simp del]

text \<open>\<^verbatim>\<open>array.slice(0, n)\<close> for an integer \<open>n\<close>: a negative \<open>n\<close> counts from the end.\<close>

definition slice0 :: "'a list \<Rightarrow> int \<Rightarrow> 'a list" where
  "slice0 xs n = (if n < 0 then take (nat (int (length xs) + n)) xs else take (nat n) xs)"

definition collect_places :: "document \<Rightarrow> int \<Rightarrow> bool \<Rightarrow> place list" where
  "collect_places d maxResults enableScroll =
     (case scroll_loop (place_cards d) maxResults enableScroll (panel d) [] 0 of
        (collected, iterations) \<Rightarrow>
          slice0 (map snd (scrape (place_cards d iterations) collected)) maxResults)"

definition maps_required :: "string list" where
  \<open>maps_required = [''a.hfpxzc[href*="/place/"]'', ''.Nv2PK'', ''.lMbq3e'']\<close>

definition maps_target :: "body \<Rightarrow> target" where
  "maps_target b = GoogleMaps (query b) (case lang b of None \<Rightarrow> ''en'' | Some l \<Rightarrow> l)"

definition maps_steps :: "body \<Rightarrow> world \<Rightarrow> place list_result outcome" where
  "maps_steps b w =
    (case goto_result w of
       Inl e \<Rightarrow> Failed e
     | Inr st \<Rightarrow>
    (case caught (waitForSelector_error w ''a.hfpxzc'') of
       Some e \<Rightarrow> Failed e
     | None \<Rightarrow>
    (case (if (case waitForTimeout b of None \<Rightarrow> 3000 | Some t \<Rightarrow> t) = 0 then None
           else waitForTimeout_error w) of
       Some e \<Rightarrow> Failed e
     | None \<Rightarrow>
    (case detectAccessBlocker (classifier_view w) maps_required of
       Some bl \<Rightarrow>
         Blocked (buildBlockerPayload bl
           \<lparr>job_query = Some (query b), job_url = maps_target b, finalUrl = page_url w,
            status = st\<rparr>)
     | None \<Rightarrow>
    (case extraction_view w of
       Inl e \<Rightarrow> Failed e
     | Inr d \<Rightarrow>
    (case (if (case returnHtml b of None \<Rightarrow> False | Some r \<Rightarrow> r)
           then (case content_result w of Inl e \<Rightarrow> Inl e | Inr h \<Rightarrow> Inr (Some h))
           else Inr None) of
       Inl e \<Rightarrow> Failed e
     | Inr h \<Rightarrow>
         Completed
           \<lparr>job_query = Some (query b), job_url = maps_target b, finalUrl = page_url w,
            status = st, html = h,
            results = collect_places d (case limit b of None \<Rightarrow> 20 | Some n \<Rightarrow> n)
                        (case scroll b of None \<Rightarrow> True | Some sc \<Rightarrow> sc)\<rparr>))))))"

text \<open>The closure that \<^verbatim>\<open>/maps\<close> hands to \<^verbatim>\<open>runJob\<close>.\<close>

definition maps_job :: "body \<Rightarrow> world \<Rightarrow> page \<Rightarrow> place list_result outcome \<times> page" where
  "maps_job b w p =
     (maps_steps b w,
      p\<lparr>navigations := navigations p @ [(maps_target b, extraHTTPHeaders p)]\<rparr>)"

section \<open>The session: browser context and shared page\<close>












section \<open>The execution queue\<close>

text \<open>
  Modelled from the spec: the scheduler behind \<^verbatim>\<open>queue.add\<close> is the \<open>p-queue\<close> package,
  which is not among the sources; only its construction with \<^verbatim>\<open>{concurrency: CONCURRENCY}\<close>
  and the call in \<^verbatim>\<open>runJob\<close> are. Following the spec's Execution Queue contract,
  admission is first in, first out, and a waiting job is started only while fewer than
  \<open>concurrency\<close> jobs are in flight. \<open>waiting\<close> is the queue (\<open>queueSize\<close>), \<open>running\<close> the
  jobs in flight (\<open>pending\<close>); \<open>submitted\<close>, \<open>started\<close> and \<open>completed\<close> record the order
  in which jobs were submitted, started and completed (settled, with a result or an
  error).
\<close>

record 'j queue =
  waiting :: "'j list"
  running :: "'j list"
  submitted :: "'j list"
  started :: "'j list"
  completed :: "'j list"

datatype 'j queue_event = Submit 'j | Start | Complete 'j

definition empty_queue :: "'j queue" where
  "empty_queue = \<lparr>waiting = [], running = [], submitted = [], started = [], completed = []\<rparr>"

text \<open>
  Modelled from the spec: one step of the \<open>p-queue\<close> scheduler, which is not among the
  sources. A submission (\<^verbatim>\<open>queue.add\<close>, as \<^verbatim>\<open>runJob\<close> calls it) appends the job to the
  queue; a start takes the job at the head of the queue, and only while fewer than
  \<open>concurrency\<close> jobs are in flight; a completion settles a job in flight. The result is
  \<open>None\<close> when the event cannot happen in this state.
\<close>

fun queue_step :: "nat \<Rightarrow> 'j queue_event \<Rightarrow> 'j queue \<Rightarrow> 'j queue option" where
  "queue_step concurrency (Submit j) q =
     (if j \<in> set (submitted q) then None
      else Some (q\<lparr>waiting := waiting q @ [j], submitted := submitted q @ [j]\<rparr>))"
| "queue_step concurrency Start q =
     (case waiting q of
        [] \<Rightarrow> None
      | j # js \<Rightarrow>
          if length (running q) < concurrency
          then Some (q\<lparr>waiting := js, running := running q @ [j], started := started q @ [j]\<rparr>)
          else None)"
| "queue_step concurrency (Complete j) q =
     (if j \<in> set (running q)
      then Some (q\<lparr>running := removeAll j (running q), completed := completed q @ [j]\<rparr>)
      else None)"

text \<open>Modelled from the spec: a run of the scheduler, from event to event.\<close>

fun queue_run :: "nat \<Rightarrow> 'j queue_event list \<Rightarrow> 'j queue \<Rightarrow> 'j queue option" where
  "queue_run concurrency [] q = Some q"
| "queue_run concurrency (ev # evs) q =
     (case queue_step concurrency ev q of
        None \<Rightarrow> None
      | Some q' \<Rightarrow> queue_run concurrency evs q')"

section \<open>Example pages, requests and driver answers\<close>

text \<open>A page on which no selector matches and which has no text, and variations of it.\<close>

definition blank_document :: document where
  "blank_document =
     \<lparr>body_innerText = Some [], documentElement_innerHTML = Some [],
      querySelector = (\<lambda>s. Inr None), iframe_srcs = [], rawCards = [],
      topStories_scan = None, aiOverview_scan = None, panel = False,
      place_cards = (\<lambda>k. [])\<rparr>"

definition element :: "string \<Rightarrow> node" where
  "element t = \<lparr>innerText = t, attributes = []\<rparr>"

text \<open>A cookie banner text over a page that also carries a CAPTCHA form.\<close>

definition cookie_captcha_document :: document where
  "cookie_captcha_document =
     blank_document
       \<lparr>body_innerText := Some ''Please Accept All Cookies. Are you a robot?'',
        querySelector := (\<lambda>s. if s = ''#captcha'' then Inr (Some (element [])) else Inr None)\<rparr>"


text \<open>
  A maps panel that shows 4 place anchors at first and 3 more after every scroll; the
  \<open>i\<close>-th anchor links to a string of \<open>i + 1\<close> letters.
\<close>

definition place_anchor :: "nat \<Rightarrow> place_card" where
  "place_anchor i =
     \<lparr>aria_label = Some ''Brasserie'', card_href = replicate (Suc i) CHR ''a'',
      ratingEl = None, reviewsEl = None, descriptorEl = None\<rparr>"

definition growing_panel_document :: document where
  "growing_panel_document =
     blank_document\<lparr>panel := True, place_cards := (\<lambda>k. map place_anchor [0 ..< 4 + 3 * k])\<rparr>"

text \<open>A browser that answers every call, showing the given document to every script.\<close>

definition showing :: "document \<Rightarrow> world" where
  "showing d =
     \<lparr>setExtraHTTPHeaders_error = None, goto_result = Inr (Some 200),
      waitForSelector_error = (\<lambda>s. None), waitForTimeout_error = None,
      classifier_view = Inr d, extraction_view = Inr d, topStories_view = Inr d,
      aiOverview_view = Inr d, content_result = Inr ''<html></html>'',
      script_result = Inr ''null'', page_url = ''https://example.org/'',
      meta_description = (\<lambda>l. None), FALLBACK_SNIPPET_LIMIT = 10\<rparr>"

definition plain_body :: body where
  "plain_body =
     \<lparr>url = ''https://example.org/'', query = ''brasserie paris'', limit = None, lang = None,
      waitUntil = None, waitForSelector = None, waitForSelectorTimeout = None,
      waitForTimeout = None, scroll = None, returnHtml = None, includeTopStories = None,
      extract_spec = None, headers = None, evaluateScript = None, evaluateArgs = None,
      requiredSelectors = None\<rparr>"

definition new_page :: page where
  "new_page = \<lparr>page_id = 0, isClosed = False, extraHTTPHeaders = [], navigations = []\<rparr>"



text \<open>
  A results page on which the first required selector of the search job and one of the
  maps job match, with one card that has neither headline nor link.
\<close>

definition listing_document :: document where
  "listing_document =
     blank_document
       \<lparr>querySelector := (\<lambda>s. if s = ''#search .g'' \<or> s = ''.Nv2PK''
                              then Inr (Some (element [])) else Inr None),
        rawCards := [\<lparr>wrapper = 0, h3_text = None, anchor_href = None, isVideoResult = False,
                      card_snippet = None, card_sitePath = None\<rparr>]\<rparr>"

text \<open>A fetch request that waits for a selector, and a browser in which every such wait times out.\<close>

definition waiting_body :: body where
  "waiting_body = plain_body\<lparr>waitForSelector := Some ''#never''\<rparr>"

definition timing_out :: "document \<Rightarrow> world" where
  "timing_out d = (showing d)\<lparr>waitForSelector_error := (\<lambda>s. Some SelectorTimeout)\<rparr>"

text \<open>A browser in which the classifier's evaluation rejects and every other call answers.\<close>

definition classifier_failing :: "document \<Rightarrow> world" where
  "classifier_failing d = (showing d)\<lparr>classifier_view := Inl EvaluateError\<rparr>"

section \<open>Notions used to state the properties\<close>

text \<open>
  The field of a specification list that decides the value stored under a name: the
  last one carrying that name, since the script assigns \<^verbatim>\<open>data[name]\<close> in list order.
\<close>

fun last_named :: "string \<Rightarrow> field list \<Rightarrow> field option" where
  "last_named n [] = None"
| "last_named n (f # fs) =
     (case last_named n fs of
        Some g \<Rightarrow> Some g
      | None \<Rightarrow> if name f = n then Some f else None)"

text \<open>The map of the maps collector after \<open>k\<close> passes of its loop.\<close>

primrec passes :: "(nat \<Rightarrow> place_card list) \<Rightarrow> nat \<Rightarrow> (string \<times> place) list" where
  "passes cards 0 = []"
| "passes cards (Suc k) = scrape (cards k) (passes cards k)"




text \<open>
  The invariant of the collector's map: its keys are pairwise distinct, and every entry
  is stored under its own \<open>href\<close>.
\<close>

definition keyed :: "(string \<times> place) list \<Rightarrow> bool" where
  "keyed col \<longleftrightarrow> distinct (map fst col) \<and> (\<forall>(k, e) \<in> set col. href e = k)"



text \<open>
  The invariant of the execution queue with concurrency 1: every submitted job is started
  or waiting, in submission order; every started job is completed or in flight; at most
  one job is in flight; no job is submitted twice.
\<close>

definition serial :: "'j queue \<Rightarrow> bool" where
  "serial q \<longleftrightarrow>
     submitted q = started q @ waiting q \<and> started q = completed q @ running q \<and>
     length (running q) \<le> 1 \<and> distinct (submitted q)"

section \<open>Properties\<close>

lemma str_includes_iff: "str_includes s p \<longleftrightarrow> (\<exists>u v. s = u @ p @ v)"
proof (induction s)
  case Nil
  then show ?case by auto
next
  case (Cons c cs)
  show ?case
  proof
    assume "str_includes (c # cs) p"
    then consider "prefix p (c # cs)" | "str_includes cs p" by auto
    then show "\<exists>u v. c # cs = u @ p @ v"
    proof cases
      case 1
      then obtain v where "c # cs = p @ v" by (auto simp: prefix_def)
      then have "c # cs = [] @ p @ v" by simp
      then show ?thesis by blast
    next
      case 2
      with Cons obtain u v where "cs = u @ p @ v" by auto
      then have "c # cs = (c # u) @ p @ v" by simp
      then show ?thesis by blast
    qed
  next
    assume "\<exists>u v. c # cs = u @ p @ v"
    then obtain u v where uv: "c # cs = u @ p @ v" by blast
    show "str_includes (c # cs) p"
    proof (cases u)
      case Nil
      with uv have "prefix p (c # cs)" by (simp add: prefix_def)
      then show ?thesis by simp
    next
      case (Cons a u')
      with uv have "cs = u' @ p @ v" by simp
      with Cons.IH have "str_includes cs p" by blast
      then show ?thesis by simp
    qed
  qed
qed

text \<open>
  Lower-casing keeps occurrences: a text that contains a catalogue phrase as written (or
  in any other letter case with the same lower-casing) contains it after \<open>toLower\<close>.
\<close>

lemma toLower_includes:
  assumes "str_includes t ph"
  shows "str_includes (toLower (Some t)) (toLower (Some ph))"
proof -
  from assms obtain u v where "t = u @ ph @ v"
    unfolding str_includes_iff by blast
  then have "map lower_char t = map lower_char u @ map lower_char ph @ map lower_char v"
    by simp
  then show ?thesis
    unfolding str_includes_iff toLower_def by auto
qed

lemma cookiePhrases_lower_case: "list_all (\<lambda>ph. toLower (Some ph) = ph) cookiePhrases"
  by code_simp

subsection \<open>Cookie precedence of the classifier\<close>

lemma cookie_hit_classified:
  assumes "collectSelectors d cookieSelectors \<noteq> [] \<or>
           collectPhrases (toLower (body_innerText d)) cookiePhrases \<noteq> []"
  shows "\<exists>b. classify d req = Some b \<and> type b = cookie \<and>
             selectors (evidence b) = collectSelectors d cookieSelectors \<and>
             phrases (evidence b) =
               Some (collectPhrases (toLower (body_innerText d)) cookiePhrases)"
  using assms by (auto simp: classify_def Let_def)

text \<open>
  C2. Whenever at least one configured cookie selector matches the document or at least
  one configured cookie phrase occurs in the (lower-cased) body text, the classifier
  returns a verdict and its kind is cookie, for every list of required selectors and
  whatever CAPTCHA selector, phrase, challenge iframe or challenge markup the same page
  carries: nothing is assumed about those.
\<close>

theorem cookie_precedence:
  assumes "(\<exists>s \<in> set cookieSelectors. \<exists>n. querySelector d s = Inr (Some n)) \<or>
           (\<exists>ph \<in> set cookiePhrases. str_includes (toLower (body_innerText d)) ph)"
  shows "\<exists>b. detectAccessBlocker (Inr d) req = Some b \<and> type b = cookie"
proof -
  have "collectSelectors d cookieSelectors \<noteq> [] \<or>
        collectPhrases (toLower (body_innerText d)) cookiePhrases \<noteq> []"
    using assms unfolding collectSelectors_def collectPhrases_def selectorMatches_def
    by (fastforce simp: filter_empty_conv)
  from cookie_hit_classified [OF this, of req] show ?thesis
    by (auto simp: detectAccessBlocker_def)
qed

theorem cookie_precedence_witness:
  "selectorMatches cookie_captcha_document ''#captcha'' \<and>
   str_includes (toLower (body_innerText cookie_captcha_document)) ''are you a robot'' \<and>
   (\<exists>ph \<in> set cookiePhrases.
      str_includes (toLower (body_innerText cookie_captcha_document)) ph) \<and>
   (\<exists>b. detectAccessBlocker (Inr cookie_captcha_document) [] = Some b \<and> type b = cookie)"
proof -
  have h: "\<exists>ph \<in> set cookiePhrases.
             str_includes (toLower (body_innerText cookie_captcha_document)) ph"
    by code_simp
  have a: "selectorMatches cookie_captcha_document ''#captcha''"
    by code_simp
  have b: "str_includes (toLower (body_innerText cookie_captcha_document)) ''are you a robot''"
    by code_simp
  from h have "(\<exists>s \<in> set cookieSelectors.
                  \<exists>n. querySelector cookie_captcha_document s = Inr (Some n)) \<or>
               (\<exists>ph \<in> set cookiePhrases.
                  str_includes (toLower (body_innerText cookie_captcha_document)) ph)"
    by blast
  from cookie_precedence [OF this, of "[]"] a b h show ?thesis
    by blast
qed


subsection \<open>The cookie scenario of the fetch job\<close>



subsection \<open>A failing classifier\<close>

text \<open>
  C7. When the classifier's page evaluation rejects, \<open>detectAccessBlocker\<close> returns no
  verdict, and each of the three jobs then returns exactly what it returns, and leaves the
  page exactly as it leaves it, when the evaluation runs and finds no blocker: the
  failure of the classification never reaches the job's outcome.
\<close>

theorem classifier_failure_is_no_verdict:
  assumes "classifier_view w = Inl e"
  shows "detectAccessBlocker (classifier_view w) rs = None \<and>
     (\<forall>d. classify d (case requiredSelectors b of None \<Rightarrow> [] | Some rs \<Rightarrow> rs) = None \<longrightarrow>
        fetch_job b w p = fetch_job b (w\<lparr>classifier_view := Inr d\<rparr>) p) \<and>
     (\<forall>d. classify d search_required = None \<longrightarrow>
        search_job b w p = search_job b (w\<lparr>classifier_view := Inr d\<rparr>) p) \<and>
     (\<forall>d. classify d maps_required = None \<longrightarrow>
        maps_job b w p = maps_job b (w\<lparr>classifier_view := Inr d\<rparr>) p)"
proof -
  have 1: "detectAccessBlocker (classifier_view w) rs = None"
    using assms by (simp add: detectAccessBlocker_def)
  have 2: "fetch_job b w p = fetch_job b (w\<lparr>classifier_view := Inr d\<rparr>) p"
    if "classify d (case requiredSelectors b of None \<Rightarrow> [] | Some rs \<Rightarrow> rs) = None" for d
    using assms that
    by (simp add: fetch_job_def fetch_steps_def detectAccessBlocker_def fetch_meta_def
          cong: sum.case_cong option.case_cong if_cong)
  have 3: "search_job b w p = search_job b (w\<lparr>classifier_view := Inr d\<rparr>) p"
    if "classify d search_required = None" for d
    using assms that
    by (simp add: search_job_def search_steps_def detectAccessBlocker_def
          cong: sum.case_cong option.case_cong if_cong)
  have 4: "maps_job b w p = maps_job b (w\<lparr>classifier_view := Inr d\<rparr>) p"
    if "classify d maps_required = None" for d
    using assms that
    by (simp add: maps_job_def maps_steps_def detectAccessBlocker_def
          cong: sum.case_cong option.case_cong if_cong)
  from 1 2 3 4 show ?thesis by blast
qed

theorem classifier_failure_is_no_verdict_witness:
  "classifier_view (classifier_failing listing_document) = Inl EvaluateError \<and>
   detectAccessBlocker (classifier_view (classifier_failing listing_document)) [] = None \<and>
   fetch_job plain_body (classifier_failing listing_document) new_page =
     fetch_job plain_body
       ((classifier_failing listing_document)\<lparr>classifier_view := Inr listing_document\<rparr>) new_page \<and>
   search_job plain_body (classifier_failing listing_document) new_page =
     search_job plain_body
       ((classifier_failing listing_document)\<lparr>classifier_view := Inr listing_document\<rparr>) new_page \<and>
   maps_job plain_body (classifier_failing listing_document) new_page =
     maps_job plain_body
       ((classifier_failing listing_document)\<lparr>classifier_view := Inr listing_document\<rparr>) new_page \<and>
   (\<exists>r. fst (fetch_job plain_body (classifier_failing listing_document) new_page) = Completed r)"
proof -
  have v: "classifier_view (classifier_failing listing_document) = Inl EvaluateError"
    by (simp add: classifier_failing_def)
  have a: "classify listing_document
             (case requiredSelectors plain_body of None \<Rightarrow> [] | Some rs \<Rightarrow> rs) = None"
    by code_simp
  have b: "classify listing_document search_required = None"
    by code_simp
  have c: "classify listing_document maps_required = None"
    by code_simp
  have d: "\<exists>r. fst (fetch_job plain_body (classifier_failing listing_document) new_page) =
             Completed r"
    by (simp add: fetch_job_def fetch_steps_def classifier_failing_def showing_def plain_body_def
          detectAccessBlocker_def)
  from classifier_failure_is_no_verdict [OF v, of "[]" plain_body new_page] v a b c d
  show ?thesis
    by blast
qed

subsection \<open>A selector wait that times out\<close>

lemma search_selector_wait_is_soft:
  "search_steps b (w\<lparr>waitForSelector_error := f\<rparr>) = search_steps b w"
  by (simp add: search_steps_def caught_def cong: sum.case_cong option.case_cong if_cong)

lemma maps_selector_wait_is_soft:
  "maps_steps b (w\<lparr>waitForSelector_error := f\<rparr>) = maps_steps b w"
  by (simp add: maps_steps_def caught_def cong: sum.case_cong option.case_cong if_cong)

text \<open>
  C4. The claim that a timeout of an explicit selector wait is a soft failure, after which
  the job goes on to classification and extraction, does not hold for the fetch job: its
  \<^verbatim>\<open>waitForSelector\<close> is awaited without a \<^verbatim>\<open>catch\<close>. On a page without any blocker, a fetch
  request that waits for \<open>#never\<close> rejects with the timeout and the handler answers 500,
  while the search job, whose wait is caught, completes in the same browser.
\<close>

theorem fetch_selector_wait_timeout_fails:
  "fst (fetch_job waiting_body (timing_out listing_document) new_page) = Failed SelectorTimeout \<and>
   http_status (fst (fetch_job waiting_body (timing_out listing_document) new_page)) = 500 \<and>
   detectAccessBlocker (classifier_view (timing_out listing_document)) [] = None \<and>
   (\<exists>r. fst (search_job plain_body (timing_out listing_document) new_page) = Completed r)"
proof -
  have "fst (fetch_job waiting_body (timing_out listing_document) new_page) =
          Failed SelectorTimeout"
    by (simp add: fetch_job_def fetch_steps_def waiting_body_def plain_body_def timing_out_def
          showing_def)
  moreover have "detectAccessBlocker (classifier_view (timing_out listing_document)) [] = None"
    by code_simp
  moreover have "classify listing_document search_required = None"
    by code_simp
  then have "\<exists>r. fst (search_job plain_body (timing_out listing_document) new_page) =
               Completed r"
    by (simp add: search_job_def search_steps_def caught_def plain_body_def timing_out_def
          showing_def detectAccessBlocker_def)
  ultimately show ?thesis
    by (simp add: http_status_def)
qed

subsection \<open>A search page without result containers\<close>

lemma classify_no_markup:
  assumes "classify d [] = None"
  shows "classify d req =
     (if computeMissingRequired d req then
        Some \<lparr>type = unknown,
              reason = ''Required page content was not found after navigation'',
              evidence = \<lparr>selectors = req, phrases = None, iframes = None\<rparr>,
              missingRequired = True\<rparr>
      else None)"
  using assms by (simp add: classify_def Let_def computeMissingRequired_def split: if_splits)

lemma search_items_no_cards: "rawCards d = [] \<Longrightarrow> search_items d n = []"
  by (simp add: search_items_def)

text \<open>
  C3, as stated, fails: the search job always passes its three built-in required
  selectors to the classifier, and a request cannot configure them away. On a page with
  no result container at all and no cookie or CAPTCHA markup (the classifier finds
  nothing when it is given no required selectors), the search job returns a blocker
  payload of kind unknown with \<open>missingRequired\<close> set, and the handler answers 409; it
  does not complete with an empty result list.
\<close>

theorem search_without_containers_is_blocked:
  "rawCards blank_document = [] \<and> classify blank_document [] = None \<and>
   requiredSelectors plain_body = None \<and>
   (\<exists>pl. fst (search_job plain_body (showing blank_document) new_page) = Blocked pl \<and>
      type (blocker pl) = unknown \<and> missingRequired (blocker pl)) \<and>
   http_status (fst (search_job plain_body (showing blank_document) new_page)) = 409"
proof -
  have a: "classify blank_document [] = None"
    by code_simp
  have b: "classify blank_document search_required =
             Some \<lparr>type = unknown,
                   reason = ''Required page content was not found after navigation'',
                   evidence = \<lparr>selectors = search_required, phrases = None, iframes = None\<rparr>,
                   missingRequired = True\<rparr>"
    by code_simp
  have "fst (search_job plain_body (showing blank_document) new_page) =
          Blocked (buildBlockerPayload
            \<lparr>type = unknown,
             reason = ''Required page content was not found after navigation'',
             evidence = \<lparr>selectors = search_required, phrases = None, iframes = None\<rparr>,
             missingRequired = True\<rparr>
            \<lparr>job_query = Some (query plain_body), job_url = search_target plain_body,
             finalUrl = page_url (showing blank_document), status = Some 200\<rparr>)"
    using b
    by (simp add: search_job_def search_steps_def caught_def detectAccessBlocker_def
          showing_def plain_body_def)
  with a show ?thesis
    by (simp add: buildBlockerPayload_def http_status_def blank_document_def plain_body_def)
qed

text \<open>
  C3, amended. Take a search job that reaches the classifier on a page without cookie or
  CAPTCHA markup. If none of the three built-in required selectors matches, the job
  returns a blocker payload of kind unknown with \<open>missingRequired\<close> set. If at least one
  of them matches, and the later driver calls answer, and no card of the page yields a
  result item, the job completes and its results are the empty list.
\<close>

theorem search_blocked_iff_required_missing:
  assumes "goto_result w = Inr st"
      and "(if (case waitForTimeout b of None \<Rightarrow> 0 | Some t \<Rightarrow> t) = 0 then None
            else waitForTimeout_error w) = None"
      and "classifier_view w = Inr d"
      and "classify d [] = None"
  shows "(list_all (\<lambda>s. \<not> selectorMatches d s) search_required \<longrightarrow>
           (\<exists>pl. fst (search_job b w p) = Blocked pl \<and> type (blocker pl) = unknown \<and>
                  missingRequired (blocker pl))) \<and>
         (list_ex (selectorMatches d) search_required \<longrightarrow>
           (\<forall>d' ts ai.
              extraction_view w = Inr d' \<and>
              search_items d' (case limit b of None \<Rightarrow> 20 | Some n \<Rightarrow> n) = [] \<and>
              topStories_view w = Inr ts \<and> aiOverview_view w = Inr ai \<and>
              (\<exists>h. content_result w = Inr h) \<longrightarrow>
              (\<exists>r. fst (search_job b w p) = Completed r \<and> results r = [])))"
proof (intro conjI impI allI)
  assume "list_all (\<lambda>s. \<not> selectorMatches d s) search_required"
  then have "computeMissingRequired d search_required"
    by (simp add: computeMissingRequired_def search_required_def)
  with classify_no_markup [OF assms(4), of search_required] assms(1-3)
  show "\<exists>pl. fst (search_job b w p) = Blocked pl \<and> type (blocker pl) = unknown \<and>
              missingRequired (blocker pl)"
    by (simp add: search_job_def search_steps_def caught_def detectAccessBlocker_def
          buildBlockerPayload_def)
next
  fix d' ts ai
  assume m: "list_ex (selectorMatches d) search_required"
    and rest: "extraction_view w = Inr d' \<and>
               search_items d' (case limit b of None \<Rightarrow> 20 | Some n \<Rightarrow> n) = [] \<and>
               topStories_view w = Inr ts \<and> aiOverview_view w = Inr ai \<and>
               (\<exists>h. content_result w = Inr h)"
  from m have "\<not> computeMissingRequired d search_required"
    by (auto simp add: computeMissingRequired_def list_all_iff list_ex_iff)
  with classify_no_markup [OF assms(4), of search_required]
  have "classify d search_required = None"
    by simp
  with assms(1-3) rest
  show "\<exists>r. fst (search_job b w p) = Completed r \<and> results r = []"
    by (auto simp add: search_job_def search_steps_def caught_def detectAccessBlocker_def
          fillMissingSnippets_def)
qed

theorem search_blocked_iff_required_missing_witness:
  "classify blank_document [] = None \<and> classify listing_document [] = None \<and>
   (\<exists>pl. fst (search_job plain_body (showing blank_document) new_page) = Blocked pl \<and>
      type (blocker pl) = unknown \<and> missingRequired (blocker pl)) \<and>
   (\<exists>r. fst (search_job plain_body (showing listing_document) new_page) = Completed r \<and>
      results r = [])"
proof -
  have n1: "classify blank_document [] = None" and n2: "classify listing_document [] = None"
    by code_simp+
  have m1: "list_all (\<lambda>s. \<not> selectorMatches blank_document s) search_required"
    by code_simp
  have m2: "list_ex (selectorMatches listing_document) search_required"
    by code_simp
  have e: "search_items listing_document (case limit plain_body of None \<Rightarrow> 20 | Some n \<Rightarrow> n) = []"
    by code_simp
  have reach: "goto_result (showing d) = Inr (Some 200)"
    "(if (case waitForTimeout plain_body of None \<Rightarrow> 0 | Some t \<Rightarrow> t) = 0 then None
      else waitForTimeout_error (showing d)) = None"
    "classifier_view (showing d) = Inr d" for d
    by (simp_all add: showing_def plain_body_def)
  have later: "extraction_view (showing d) = Inr d \<and> topStories_view (showing d) = Inr d \<and>
               aiOverview_view (showing d) = Inr d \<and> (\<exists>h. content_result (showing d) = Inr h)"
    for d
    by (simp add: showing_def)
  from search_blocked_iff_required_missing [OF reach n1, where p = new_page] m1
  have 1: "\<exists>pl. fst (search_job plain_body (showing blank_document) new_page) = Blocked pl \<and>
             type (blocker pl) = unknown \<and> missingRequired (blocker pl)"
    by blast
  from search_blocked_iff_required_missing [OF reach n2, where p = new_page] m2 e
    later [of listing_document]
  have 2: "\<exists>r. fst (search_job plain_body (showing listing_document) new_page) = Completed r \<and>
             results r = []"
    by blast
  from n1 n2 1 2 show ?thesis
    by blast
qed

subsection \<open>Field extraction\<close>


lemma last_named_distinct:
  "distinct (map name items) \<Longrightarrow> f \<in> set items \<Longrightarrow> last_named (name f) items = Some f"
proof (induction items)
  case Nil
  then show ?case by simp
next
  case (Cons g gs)
  have none: "last_named n gs = None" if "n \<notin> name ` set gs" for n
    using that by (induction gs) (auto split: option.splits)
  from Cons show ?case
    by (auto simp: none split: option.splits)
qed




subsection \<open>The maps collector\<close>

lemma scrape_extends: "\<exists>new. scrape cs col = col @ new"
proof (induction cs arbitrary: col)
  case Nil
  then show ?case by simp
next
  case (Cons c cs)
  show ?case
  proof (cases "aria_label c")
    case None
    with Cons show ?thesis by simp
  next
    case (Some t)
    show ?thesis
    proof (cases "card_href c = [] \<or> t = [] \<or> card_href c \<in> fst ` set col")
      case True
      with Some Cons [of col] show ?thesis by auto
    next
      case False
      let ?e = "(card_href c, \<lparr>title = t, href = card_href c, rating = ratingEl c,
                      reviews = reviewsEl c, descriptor = descriptorEl c\<rparr>)"
      from Cons [of "col @ [?e]"] obtain new where "scrape cs (col @ [?e]) = (col @ [?e]) @ new" by blast
      with False Some have "scrape (c # cs) col = col @ (?e # new)" by simp
      then show ?thesis by blast
    qed
  qed
qed

lemma scrape_keyed: "keyed col \<Longrightarrow> keyed (scrape cs col)"
proof (induction cs arbitrary: col)
  case Nil
  then show ?case by simp
next
  case (Cons c cs)
  show ?case
  proof (cases "aria_label c")
    case None
    with Cons show ?thesis by simp
  next
    case (Some t)
    show ?thesis
    proof (cases "card_href c = [] \<or> t = [] \<or> card_href c \<in> fst ` set col")
      case True
      with Some Cons show ?thesis by auto
    next
      case False
      let ?e = "(card_href c, \<lparr>title = t, href = card_href c, rating = ratingEl c,
                      reviews = reviewsEl c, descriptor = descriptorEl c\<rparr>)"
      from False Cons.prems have "keyed (col @ [?e])"
        by (auto simp: keyed_def)
      from Cons.IH [OF this] False Some show ?thesis by simp
    qed
  qed
qed

lemma passes_keyed: "keyed (passes cards k)"
  by (induction k) (simp_all add: keyed_def scrape_keyed [unfolded keyed_def])

lemma scroll_loop_passes:
  assumes "i \<le> 20"
  shows "\<exists>n. scroll_loop cards m True True (passes cards i) i = (passes cards n, n) \<and>
             i \<le> n \<and> n \<le> 20 \<and>
             (\<forall>k. i \<le> k \<and> k < n \<longrightarrow> int (length (passes cards k)) < m) \<and>
             (m \<le> int (length (passes cards n)) \<or> n = 20)"
  using assms
proof (induction "20 - i" arbitrary: i)
  case 0
  then have "i = 20" by simp
  then show ?case by (simp add: scroll_loop.simps)
next
  case (Suc x)
  then have lt: "i < 20" by simp
  show ?case
  proof (cases "int (length (passes cards i)) < m")
    case False
    with lt have "scroll_loop cards m True True (passes cards i) i = (passes cards i, i)"
      by (simp add: scroll_loop.simps)
    with False lt show ?thesis by auto
  next
    case True
    from Suc have "x = 20 - Suc i" "Suc i \<le> 20" by simp_all
    from Suc.hyps(1) [OF this] obtain n where n:
      "scroll_loop cards m True True (passes cards (Suc i)) (Suc i) = (passes cards n, n)"
      "Suc i \<le> n" "n \<le> 20"
      "\<forall>k. Suc i \<le> k \<and> k < n \<longrightarrow> int (length (passes cards k)) < m"
      "m \<le> int (length (passes cards n)) \<or> n = 20"
      by blast
    from True lt have "scroll_loop cards m True True (passes cards i) i =
       scroll_loop cards m True True (passes cards (Suc i)) (Suc i)"
      by (subst scroll_loop.simps) simp
    with n(1) have 1: "scroll_loop cards m True True (passes cards i) i = (passes cards n, n)" by simp
    have 2: "\<forall>k. i \<le> k \<and> k < n \<longrightarrow> int (length (passes cards k)) < m"
    proof (intro allI impI)
      fix k assume "i \<le> k \<and> k < n"
      then consider "k = i" | "Suc i \<le> k \<and> k < n" by linarith
      then show "int (length (passes cards k)) < m"
        using True n(4) by cases auto
    qed
    from 1 2 n(2,3,5) show ?thesis by auto
  qed
qed

lemma slice0_nonneg: "0 \<le> n \<Longrightarrow> slice0 xs n = take (nat n) xs"
  by (simp add: slice0_def)

text \<open>
  C6, as stated, fails for a negative \<open>limit\<close>, which no handler rejects: the loop does
  not run, the final scan collects what is rendered, and \<^verbatim>\<open>slice(0, limit)\<close> then counts
  from the end. With \<open>limit = -1\<close> and four anchors rendered, three entries are returned,
  which is more than \<open>limit\<close>.
\<close>

theorem negative_limit_returns_more:
  "panel growing_panel_document \<and>
   length (collect_places growing_panel_document (- 1) True) = 3 \<and>
   \<not> int (length (collect_places growing_panel_document (- 1) True)) \<le> - 1"
proof -
  have "panel growing_panel_document"
    and "length (collect_places growing_panel_document (- 1) True) = 3"
    by code_simp+
  then show ?thesis
    by simp
qed

text \<open>
  C6, amended: the claim for a limit that is not negative. With scrolling enabled and
  the panel present, the loop makes \<open>n\<close> passes of scan and scroll, where \<open>n\<close> is at
  most 20, every pass was begun with fewer than \<open>limit\<close> entries collected, and at the end
  either at least \<open>limit\<close> entries are collected or \<open>n\<close> is the cap of 20. Every scan
  keeps the map it was given as a prefix of its result: entries are only appended, none
  is removed or overwritten. The returned list is the first \<open>limit\<close> entries of the map
  after the final scan; it has at most \<open>limit\<close> entries, with pairwise distinct
  \<open>href\<close>.
\<close>

theorem collector_accumulates:
  assumes "0 \<le> maxResults" and "panel d"
  shows "\<exists>n. scroll_loop (place_cards d) maxResults True (panel d) [] 0 =
               (passes (place_cards d) n, n) \<and>
           n \<le> 20 \<and>
           (\<forall>k < n. int (length (passes (place_cards d) k)) < maxResults) \<and>
           (maxResults \<le> int (length (passes (place_cards d) n)) \<or> n = 20) \<and>
           (\<forall>cs col. prefix col (scrape cs col)) \<and>
           collect_places d maxResults True =
             take (nat maxResults)
               (map snd (scrape (place_cards d n) (passes (place_cards d) n))) \<and>
           int (length (collect_places d maxResults True)) \<le> maxResults \<and>
           distinct (map href (collect_places d maxResults True))"
proof -
  from scroll_loop_passes [of 0 "place_cards d" maxResults] obtain n where n:
    "scroll_loop (place_cards d) maxResults True True [] 0 = (passes (place_cards d) n, n)"
    "n \<le> 20" "\<forall>k. 0 \<le> k \<and> k < n \<longrightarrow> int (length (passes (place_cards d) k)) < maxResults"
    "maxResults \<le> int (length (passes (place_cards d) n)) \<or> n = 20"
    by auto
  let ?final = "scrape (place_cards d n) (passes (place_cards d) n)"
  have res: "collect_places d maxResults True = take (nat maxResults) (map snd ?final)"
    using n(1) assms by (simp add: collect_places_def slice0_nonneg)
  have k: "keyed ?final"
    by (rule scrape_keyed [OF passes_keyed])
  then have "\<forall>x \<in> set ?final. href (snd x) = fst x"
    by (auto simp: keyed_def)
  then have eq: "map (\<lambda>x. href (snd x)) ?final = map fst ?final"
    by (simp only: map_eq_conv)
  from k have "distinct (map fst ?final)"
    by (simp add: keyed_def)
  then have "distinct (map (\<lambda>x. href (snd x)) ?final)"
    by (simp only: eq)
  then have "distinct (map href (map snd ?final))"
    by (simp add: comp_def)
  then have dist: "distinct (map href (collect_places d maxResults True))"
    unfolding res by (simp add: take_map [symmetric])
  have len: "int (length (collect_places d maxResults True)) \<le> maxResults"
    unfolding res using assms(1) by simp
  have pre: "\<forall>cs col. prefix col (scrape cs col)"
    using scrape_extends by (auto simp: prefix_def)
  from n assms(2) res dist len pre show ?thesis
    by auto
qed

theorem collector_accumulates_witness:
  "panel growing_panel_document \<and>
   scroll_loop (place_cards growing_panel_document) 10 True True [] 0 =
     (passes (place_cards growing_panel_document) 3, 3) \<and>
   length (passes (place_cards growing_panel_document) 3) = 10 \<and>
   length (collect_places growing_panel_document 10 True) = 10 \<and>
   int (length (collect_places growing_panel_document 10 True)) \<le> 10 \<and>
   distinct (map href (collect_places growing_panel_document 10 True))"
proof -
  have p: "panel growing_panel_document"
    by code_simp
  have l: "scroll_loop (place_cards growing_panel_document) 10 True True [] 0 =
             (passes (place_cards growing_panel_document) 3, 3)"
    by code_simp
  have m: "length (passes (place_cards growing_panel_document) 3) = 10"
    and c: "length (collect_places growing_panel_document 10 True) = 10"
    by code_simp+
  have "(0::int) \<le> 10"
    by simp
  from collector_accumulates [OF this p] p l m c show ?thesis
    by blast
qed

subsection \<open>Resetting the session\<close>




subsection \<open>Extra headers on the shared page\<close>










subsection \<open>First in, first out\<close>

lemma serial_step:
  assumes "serial q" and "queue_step 1 ev q = Some q'"
  shows "serial q'"
proof (cases ev)
  case (Submit j)
  with assms show ?thesis
    by (auto simp: serial_def split: if_splits)
next
  case Start
  with assms show ?thesis
    by (auto simp: serial_def split: list.splits if_splits)
next
  case (Complete j)
  with assms have j: "j \<in> set (running q)"
    and q': "q' = q\<lparr>running := removeAll j (running q), completed := completed q @ [j]\<rparr>"
    by (auto split: if_splits)
  from assms(1) j have "running q = [j]"
    by (cases "running q") (auto simp: serial_def)
  from assms(1) have a: "submitted q = started q @ waiting q"
    "started q = completed q @ running q" "distinct (submitted q)"
    unfolding serial_def by blast+
  show ?thesis
    unfolding serial_def q' using a \<open>running q = [j]\<close> by simp
qed

lemma serial_run:
  assumes "serial q" and "queue_run 1 evs q = Some q'"
  shows "serial q'"
  using assms
proof (induction evs arbitrary: q)
  case Nil
  then show ?case by simp
next
  case (Cons ev evs)
  then show ?case
    by (auto split: option.splits dest: serial_step)
qed

text \<open>
  C1. In every state that the execution queue reaches with concurrency 1, whatever the
  order of submissions, starts and completions: the started jobs are the first of the
  submitted jobs, in submission order; the completed jobs are the first of the started
  jobs, in the same order; at most one job is in flight; and a waiting job can be
  started only when no job is in flight, that is when every job started before has
  completed.
\<close>

theorem queue_fifo:
  assumes "queue_run 1 evs empty_queue = Some q"
  shows "started q = take (length (started q)) (submitted q) \<and>
         completed q = take (length (completed q)) (started q) \<and>
         length (running q) \<le> 1 \<and>
         started q = completed q @ running q \<and>
         submitted q = started q @ waiting q \<and>
         (\<forall>q'. queue_step 1 Start q = Some q' \<longrightarrow> running q = [] \<and> completed q = started q)"
proof -
  have "serial (empty_queue :: 'a queue)"
    by (simp add: serial_def empty_queue_def)
  from serial_run [OF this assms] have s: "serial q" .
  then have "\<forall>q'. queue_step 1 Start q = Some q' \<longrightarrow> running q = [] \<and> completed q = started q"
    by (auto simp: serial_def split: list.splits if_splits)
  with s show ?thesis
    by (simp add: serial_def)
qed


theorem queue_fifo_witness:
  "queue_run 1 [Submit (1::nat), Submit 2, Start, Submit 3, Complete 1, Start, Complete 2]
     empty_queue =
     Some \<lparr>waiting = [3], running = [], submitted = [1, 2, 3], started = [1, 2],
           completed = [1, 2]\<rparr> \<and>
   queue_run 1 [Submit (1::nat), Submit 2, Start, Start] empty_queue = None \<and>
   started \<lparr>waiting = [3::nat], running = [], submitted = [1, 2, 3], started = [1, 2],
            completed = [1, 2]\<rparr> =
     take 2 (submitted \<lparr>waiting = [3::nat], running = [], submitted = [1, 2, 3],
                        started = [1, 2], completed = [1, 2]\<rparr>)"
proof -
  have r: "queue_run 1 [Submit (1::nat), Submit 2, Start, Submit 3, Complete 1, Start, Complete 2]
             empty_queue =
           Some \<lparr>waiting = [3], running = [], submitted = [1, 2, 3], started = [1, 2],
                 completed = [1, 2]\<rparr>"
    by code_simp
  have n: "queue_run 1 [Submit (1::nat), Submit 2, Start, Start] empty_queue = None"
    by code_simp
  from queue_fifo [OF r] r n show ?thesis
    by simp
qed

end
